theory Spec2Isabelle
  imports Complex_Main
begin

section \<open>The weighing ticket (Romaneio) and its settlement calculation\<close>

text \<open>
  The development embeds \<^verbatim>\<open>Romaneio.save\<close> of \<^verbatim>\<open>core/models.py\<close>: the
  recomputation of deductions, technical shrinkage and net weight that runs before a
  weighing ticket is written.

  Python's \<^verbatim>\<open>Decimal\<close> values are modelled as rationals. Sums, differences and
  products of decimals are decimals, and so is a decimal divided by 100, so every
  result of the calculation is the exact value as long as it fits the 28 significant
  digits of the default decimal context; the fields of a ticket (at most 12 digits for a
  weight, 5 for a percentage) keep every intermediate result below that. Rounding of
  the context and the rounding the database applies when a field is written are not
  part of the model: it describes the attributes of the ticket object after
  \<^verbatim>\<open>save\<close> has computed them. Of the write itself, only the refusal of a
  measurement that is missing or is rejected text is modelled.
\<close>

type_synonym decimal = rat

text \<open>The two exceptions of the \<^verbatim>\<open>decimal\<close> module the calculation can meet.\<close>

datatype error = InvalidOperation | DivisionByZero

text \<open>
  What an attribute of a \<^verbatim>\<open>DecimalField\<close> may hold when \<^verbatim>\<open>save\<close> reads it:
  nothing, a decimal, or text as a form posted it.
\<close>

datatype pyval = PNone | PDec decimal | PStr string

text \<open>
  \<^verbatim>\<open>TabelaClassificacao\<close>: the four thresholds that \<^verbatim>\<open>save\<close> reads. The name,
  the crop and the tenant of a table only serve the query that selects it, which is a
  parameter below.
\<close>

record tabela_classificacao =
  padrao_umidade :: decimal
  padrao_impureza :: decimal
  padrao_avariado :: decimal
  taxa_secagem :: decimal

text \<open>\<^verbatim>\<open>TaxaArmazem\<close>: only the technical-shrinkage percentage is read.\<close>

record taxa_armazem =
  quebra_tecnica :: pyval

text \<open>\<^verbatim>\<open>Plantio\<close>: only the crop name is read.\<close>

record plantio_reg =
  cultura :: string

text \<open>
  \<^verbatim>\<open>Romaneio\<close>, with the tenant of \<^verbatim>\<open>TenantAwareModel\<close>. Foreign keys to rows
  that \<^verbatim>\<open>save\<close> does not read are identifiers; the two it follows
  (\<^verbatim>\<open>plantio\<close>, \<^verbatim>\<open>armazem_terceiro\<close>) hold the row itself.
\<close>

record romaneio =
  empresa :: "nat option"
  data :: string
  numero_ticket :: string
  fazenda :: nat
  talhao :: nat
  plantio :: "plantio_reg option"
  motorista :: "string option"
  placa :: "string option"
  peso_tara :: pyval
  peso_bruto :: pyval
  umidade_percentual :: pyval
  impureza_percentual :: pyval
  avariado_percentual :: pyval
  desconto_kg_umidade :: "decimal option"
  desconto_kg_impureza :: "decimal option"
  desconto_kg_avariado :: "decimal option"
  total_descontos_kg :: decimal
  armazem_terceiro :: "taxa_armazem option"
  peso_quebra_tecnica :: decimal
  peso_liquido :: "decimal option"

subsection \<open>Exceptions and the operations that raise them\<close>

definition bind_res :: "error + 'a \<Rightarrow> ('a \<Rightarrow> error + 'b) \<Rightarrow> error + 'b" where
  "bind_res m f = (case m of Inl e \<Rightarrow> Inl e | Inr x \<Rightarrow> f x)"

text \<open>
  \<^verbatim>\<open>Decimal(str(v or 0))\<close>. A value that is \<^verbatim>\<open>None\<close>, zero or the empty text is
  falsy and replaced by 0. The parameter \<open>parse\<close> is the constructor
  \<^verbatim>\<open>Decimal\<close> on text: \<open>Some d\<close> when the text denotes the finite decimal \<open>d\<close>,
  \<open>None\<close> when the constructor raises \<^verbatim>\<open>InvalidOperation\<close>. Text that denotes a
  NaN or an infinity is outside the model.
\<close>

fun to_decimal :: "(string \<Rightarrow> decimal option) \<Rightarrow> pyval \<Rightarrow> error + decimal" where
  "to_decimal parse PNone = Inr 0"
| "to_decimal parse (PDec d) = Inr d"
| "to_decimal parse (PStr s) =
     (if s = [] then Inr 0
      else case parse s of None \<Rightarrow> Inl InvalidOperation | Some d \<Rightarrow> Inr d)"

text \<open>
  Division of decimals: a zero divisor raises \<^verbatim>\<open>DivisionByZero\<close>, or
  \<^verbatim>\<open>InvalidOperation\<close> when the dividend is zero as well.
\<close>

definition dec_div :: "decimal \<Rightarrow> decimal \<Rightarrow> error + decimal" where
  "dec_div a b =
     (if b = 0 then Inl (if a = 0 then InvalidOperation else DivisionByZero)
      else Inr (a / b))"

subsection \<open>The steps of \<^verbatim>\<open>save\<close>\<close>

text \<open>
  The query for the classification table: it runs only for a ticket with a
  \<^verbatim>\<open>plantio\<close>. The parameter \<open>tabelas\<close> is
  \<^verbatim>\<open>TabelaClassificacao.objects.filter(empresa=..., cultura__iexact=...).first()\<close>.
\<close>

definition tabela_resolvida ::
  "(nat option \<Rightarrow> string \<Rightarrow> tabela_classificacao option) \<Rightarrow> romaneio \<Rightarrow>
   tabela_classificacao option" where
  "tabela_resolvida tabelas r =
     (case plantio r of None \<Rightarrow> None | Some p \<Rightarrow> tabelas (empresa r) (cultura p))"

text \<open>The default thresholds, replaced by those of the table when there is one.\<close>

definition padroes ::
  "(nat option \<Rightarrow> string \<Rightarrow> tabela_classificacao option) \<Rightarrow> romaneio \<Rightarrow>
   tabela_classificacao" where
  "padroes tabelas r =
     (case tabela_resolvida tabelas r of
        None \<Rightarrow>
          \<lparr>padrao_umidade = 14, padrao_impureza = 1, padrao_avariado = 0, taxa_secagem = 0\<rparr>
      | Some tabela \<Rightarrow>
          \<lparr>padrao_umidade = padrao_umidade tabela, padrao_impureza = padrao_impureza tabela,
           padrao_avariado = padrao_avariado tabela, taxa_secagem = taxa_secagem tabela\<rparr>)"

definition calc_desconto_umidade ::
  "decimal \<Rightarrow> decimal \<Rightarrow> decimal \<Rightarrow> decimal \<Rightarrow> error + decimal" where
  "calc_desconto_umidade peso_carga umidade padrao_umid taxa_sec =
     (if umidade > padrao_umid then
        bind_res (dec_div (umidade - padrao_umid) 100) (\<lambda>fracao_excesso.
        bind_res (dec_div taxa_sec 100) (\<lambda>fracao_taxa.
        Inr (peso_carga * fracao_excesso + peso_carga * fracao_taxa)))
      else Inr 0)"

definition calc_desconto_impureza :: "decimal \<Rightarrow> decimal \<Rightarrow> decimal \<Rightarrow> error + decimal" where
  "calc_desconto_impureza peso_carga impureza padrao_imp =
     (if impureza > padrao_imp then
        bind_res (dec_div (impureza - padrao_imp) 100) (\<lambda>fracao_excesso.
        Inr (peso_carga * fracao_excesso))
      else Inr 0)"

definition calc_desconto_avariado :: "decimal \<Rightarrow> decimal \<Rightarrow> decimal \<Rightarrow> error + decimal" where
  "calc_desconto_avariado peso_carga avariado padrao_avar =
     (if avariado > padrao_avar then
        bind_res (dec_div (avariado - padrao_avar) 100) (\<lambda>fracao_excesso.
        Inr (peso_carga * fracao_excesso))
      else Inr 0)"

text \<open>
  \<^verbatim>\<open>if not campo or campo == 0: campo = calculado\<close>: the stored deduction is kept
  only when it is a decimal other than zero.
\<close>

definition manual_ou_calculado :: "decimal option \<Rightarrow> decimal \<Rightarrow> decimal" where
  "manual_ou_calculado campo calculado =
     (case campo of
        None \<Rightarrow> calculado
      | Some v \<Rightarrow> if \<not> (v \<noteq> 0) \<or> v = 0 then calculado else v)"

text \<open>The technical shrinkage, computed only for a ticket with a third-party warehouse.\<close>

definition calc_quebra_tecnica ::
  "(string \<Rightarrow> decimal option) \<Rightarrow> taxa_armazem option \<Rightarrow> decimal \<Rightarrow> error + decimal" where
  "calc_quebra_tecnica parse armazem peso_pos_classificacao =
     (case armazem of
        None \<Rightarrow> Inr 0
      | Some a \<Rightarrow>
          bind_res (to_decimal parse (quebra_tecnica a)) (\<lambda>indice_quebra.
          bind_res (dec_div indice_quebra 100) (\<lambda>fracao_quebra.
          Inr (peso_pos_classificacao * fracao_quebra))))"

text \<open>
  \<^verbatim>\<open>Romaneio.save\<close>, up to the call of the parent's \<^verbatim>\<open>save\<close>: the ticket
  with its derived attributes assigned, or the exception raised on the way.
\<close>

definition save ::
  "(string \<Rightarrow> decimal option) \<Rightarrow> (nat option \<Rightarrow> string \<Rightarrow> tabela_classificacao option) \<Rightarrow>
   romaneio \<Rightarrow> error + romaneio" where
  "save parse tabelas r =
     bind_res (to_decimal parse (peso_bruto r)) (\<lambda>bruto.
     bind_res (to_decimal parse (peso_tara r)) (\<lambda>tara.
     bind_res (to_decimal parse (umidade_percentual r)) (\<lambda>umidade.
     bind_res (to_decimal parse (impureza_percentual r)) (\<lambda>impureza.
     bind_res (to_decimal parse (avariado_percentual r)) (\<lambda>avariado.
     let peso_carga = bruto - tara;
         p = padroes tabelas r
     in
     bind_res (calc_desconto_umidade peso_carga umidade (padrao_umidade p) (taxa_secagem p))
       (\<lambda>desconto_umidade.
     bind_res (calc_desconto_impureza peso_carga impureza (padrao_impureza p))
       (\<lambda>desconto_impureza.
     bind_res (calc_desconto_avariado peso_carga avariado (padrao_avariado p))
       (\<lambda>desconto_avariado.
     let kg_umidade = manual_ou_calculado (desconto_kg_umidade r) desconto_umidade;
         kg_impureza = manual_ou_calculado (desconto_kg_impureza r) desconto_impureza;
         kg_avariado = manual_ou_calculado (desconto_kg_avariado r) desconto_avariado;
         total = kg_umidade + kg_impureza + kg_avariado;
         peso_pos_classificacao = peso_carga - total
     in
     bind_res (calc_quebra_tecnica parse (armazem_terceiro r) peso_pos_classificacao)
       (\<lambda>quebra_tec.
     Inr (r\<lparr>desconto_kg_umidade := Some kg_umidade,
            desconto_kg_impureza := Some kg_impureza,
            desconto_kg_avariado := Some kg_avariado,
            total_descontos_kg := total,
            peso_quebra_tecnica := (if armazem_terceiro r \<noteq> None then quebra_tec else 0),
            peso_liquido := Some (peso_pos_classificacao - quebra_tec)\<rparr>))))))))))"


subsection \<open>The whole method: the ticket object and the write\<close>







subsection \<open>Vocabulary for the properties\<close>

text \<open>
  The value a raw attribute converts to, and whether it converts. A ticket's inputs are
  valid when the five measurements convert and, for a ticket with a warehouse, the
  warehouse's shrinkage percentage converts.
\<close>

definition valor :: "(string \<Rightarrow> decimal option) \<Rightarrow> pyval \<Rightarrow> decimal" where
  "valor parse v = (case to_decimal parse v of Inl e \<Rightarrow> 0 | Inr d \<Rightarrow> d)"

definition conversivel :: "(string \<Rightarrow> decimal option) \<Rightarrow> pyval \<Rightarrow> bool" where
  "conversivel parse v = (case to_decimal parse v of Inl e \<Rightarrow> False | Inr d \<Rightarrow> True)"

definition entradas_validas :: "(string \<Rightarrow> decimal option) \<Rightarrow> romaneio \<Rightarrow> bool" where
  "entradas_validas parse r =
     (conversivel parse (peso_bruto r) \<and> conversivel parse (peso_tara r) \<and>
      conversivel parse (umidade_percentual r) \<and> conversivel parse (impureza_percentual r) \<and>
      conversivel parse (avariado_percentual r) \<and>
      (case armazem_terceiro r of None \<Rightarrow> True | Some a \<Rightarrow> conversivel parse (quebra_tecnica a)))"


text \<open>The load weight and the warehouse's shrinkage percentage, as decimals.\<close>

definition carga :: "(string \<Rightarrow> decimal option) \<Rightarrow> romaneio \<Rightarrow> decimal" where
  "carga parse r = valor parse (peso_bruto r) - valor parse (peso_tara r)"

definition indice :: "(string \<Rightarrow> decimal option) \<Rightarrow> romaneio \<Rightarrow> decimal" where
  "indice parse r =
     (case armazem_terceiro r of None \<Rightarrow> 0 | Some a \<Rightarrow> valor parse (quebra_tecnica a))"

text \<open>A manual deduction is in effect when the attribute holds a decimal other than zero.\<close>

definition informado :: "decimal option \<Rightarrow> bool" where
  "informado campo = (case campo of None \<Rightarrow> False | Some v \<Rightarrow> v \<noteq> 0)"

definition nao_negativo :: "decimal option \<Rightarrow> bool" where
  "nao_negativo campo = (case campo of None \<Rightarrow> True | Some v \<Rightarrow> 0 \<le> v)"

text \<open>
  The deductions that \<^verbatim>\<open>save\<close> stores for valid inputs, and the weight after
  classification.
\<close>

definition kg_umidade ::
  "(string \<Rightarrow> decimal option) \<Rightarrow> (nat option \<Rightarrow> string \<Rightarrow> tabela_classificacao option) \<Rightarrow>
   romaneio \<Rightarrow> decimal" where
  "kg_umidade parse tabelas r =
     manual_ou_calculado (desconto_kg_umidade r)
       (if valor parse (umidade_percentual r) > padrao_umidade (padroes tabelas r)
        then carga parse r
               * ((valor parse (umidade_percentual r) - padrao_umidade (padroes tabelas r)) / 100)
             + carga parse r * (taxa_secagem (padroes tabelas r) / 100)
        else 0)"

definition kg_impureza ::
  "(string \<Rightarrow> decimal option) \<Rightarrow> (nat option \<Rightarrow> string \<Rightarrow> tabela_classificacao option) \<Rightarrow>
   romaneio \<Rightarrow> decimal" where
  "kg_impureza parse tabelas r =
     manual_ou_calculado (desconto_kg_impureza r)
       (if valor parse (impureza_percentual r) > padrao_impureza (padroes tabelas r)
        then carga parse r
               * ((valor parse (impureza_percentual r) - padrao_impureza (padroes tabelas r)) / 100)
        else 0)"

definition kg_avariado ::
  "(string \<Rightarrow> decimal option) \<Rightarrow> (nat option \<Rightarrow> string \<Rightarrow> tabela_classificacao option) \<Rightarrow>
   romaneio \<Rightarrow> decimal" where
  "kg_avariado parse tabelas r =
     manual_ou_calculado (desconto_kg_avariado r)
       (if valor parse (avariado_percentual r) > padrao_avariado (padroes tabelas r)
        then carga parse r
               * ((valor parse (avariado_percentual r) - padrao_avariado (padroes tabelas r)) / 100)
        else 0)"

definition pos_classificacao ::
  "(string \<Rightarrow> decimal option) \<Rightarrow> (nat option \<Rightarrow> string \<Rightarrow> tabela_classificacao option) \<Rightarrow>
   romaneio \<Rightarrow> decimal" where
  "pos_classificacao parse tabelas r =
     carga parse r
     - (kg_umidade parse tabelas r + kg_impureza parse tabelas r + kg_avariado parse tabelas r)"

subsection \<open>Example tickets\<close>

text \<open>No text converts, and no classification table is on file.\<close>

definition sem_texto :: "string \<Rightarrow> decimal option" where
  "sem_texto s = None"

definition sem_tabela :: "nat option \<Rightarrow> string \<Rightarrow> tabela_classificacao option" where
  "sem_tabela e c = None"

text \<open>
  A load of soy beans: 10000 kg gross, 2000 kg tare, 18 % moisture, 0.5 % impurity,
  no damaged grain, no manual deduction, no warehouse.
\<close>

definition ticket_soja :: romaneio where
  "ticket_soja =
     \<lparr>empresa = Some 1, data = ''2024-03-15'', numero_ticket = ''T-001'', fazenda = 1,
      talhao = 1, plantio = Some \<lparr>cultura = ''Soja''\<rparr>, motorista = Some ''Jose'',
      placa = Some ''ABC1D23'', peso_tara = PDec 2000, peso_bruto = PDec 10000,
      umidade_percentual = PDec 18, impureza_percentual = PDec (1 / 2),
      avariado_percentual = PDec 0, desconto_kg_umidade = Some 0,
      desconto_kg_impureza = Some 0, desconto_kg_avariado = None, total_descontos_kg = 0,
      armazem_terceiro = None, peso_quebra_tecnica = 0, peso_liquido = None\<rparr>"

text \<open>The same load delivered to a warehouse that charges 2 % technical shrinkage.\<close>

definition ticket_armazem :: romaneio where
  "ticket_armazem = ticket_soja\<lparr>armazem_terceiro := Some \<lparr>quebra_tecnica = PDec 2\<rparr>\<rparr>"

text \<open>The same load with gross and tare exchanged at the scale: 2000 kg gross, 10000 kg tare.\<close>

definition ticket_tara_maior :: romaneio where
  "ticket_tara_maior = ticket_soja\<lparr>peso_bruto := PDec 2000, peso_tara := PDec 10000\<rparr>"

text \<open>
  A classification table for soy beans of tenant 1: 12 % moisture, 1 % impurity, no
  damaged grain, 2 % drying fee.
\<close>

definition tabela_soja :: "nat option \<Rightarrow> string \<Rightarrow> tabela_classificacao option" where
  "tabela_soja e c =
     (if e = Some 1 \<and> c = ''Soja''
      then Some \<lparr>padrao_umidade = 12, padrao_impureza = 1, padrao_avariado = 0,
                  taxa_secagem = 2\<rparr>
      else None)"


text \<open>The load with moisture exactly at the default standard of 14 %.\<close>

definition ticket_seco :: romaneio where
  "ticket_seco = ticket_soja\<lparr>umidade_percentual := PDec 14\<rparr>"

text \<open>The load with 3 % impurity and a manual moisture deduction of 100 kg.\<close>

definition ticket_manual :: romaneio where
  "ticket_manual =
     ticket_soja\<lparr>impureza_percentual := PDec 3, desconto_kg_umidade := Some 100\<rparr>"





section \<open>Properties\<close>

subsection \<open>Shared lemmas\<close>

lemma conversivel_valor:
  "conversivel parse v \<Longrightarrow> to_decimal parse v = Inr (valor parse v)"
  by (simp add: conversivel_def valor_def split: sum.splits)

lemma dec_div_100: "dec_div a 100 = Inr (a / 100)"
  by (simp add: dec_div_def)

lemma calc_quebra_tecnica_eq:
  assumes "case armazem of None \<Rightarrow> True | Some a \<Rightarrow> conversivel parse (quebra_tecnica a)"
  shows "calc_quebra_tecnica parse armazem w =
         Inr (w * ((case armazem of None \<Rightarrow> 0 | Some a \<Rightarrow> valor parse (quebra_tecnica a)) / 100))"
  using assms
  by (cases armazem)
     (simp_all add: calc_quebra_tecnica_def bind_res_def conversivel_valor dec_div_100)

text \<open>The ticket that \<^verbatim>\<open>save\<close> returns for valid inputs, written out.\<close>

lemma save_validas:
  assumes "entradas_validas parse r"
  shows "save parse tabelas r =
    Inr (r\<lparr>desconto_kg_umidade := Some (kg_umidade parse tabelas r),
           desconto_kg_impureza := Some (kg_impureza parse tabelas r),
           desconto_kg_avariado := Some (kg_avariado parse tabelas r),
           total_descontos_kg :=
             kg_umidade parse tabelas r + kg_impureza parse tabelas r
             + kg_avariado parse tabelas r,
           peso_quebra_tecnica := pos_classificacao parse tabelas r * (indice parse r / 100),
           peso_liquido :=
             Some (pos_classificacao parse tabelas r
                   - pos_classificacao parse tabelas r * (indice parse r / 100))\<rparr>)"
proof -
  from assms have cb: "to_decimal parse (peso_bruto r) = Inr (valor parse (peso_bruto r))"
    and ct: "to_decimal parse (peso_tara r) = Inr (valor parse (peso_tara r))"
    and cu: "to_decimal parse (umidade_percentual r) = Inr (valor parse (umidade_percentual r))"
    and ci: "to_decimal parse (impureza_percentual r) = Inr (valor parse (impureza_percentual r))"
    and ca: "to_decimal parse (avariado_percentual r) = Inr (valor parse (avariado_percentual r))"
    and cq: "case armazem_terceiro r of None \<Rightarrow> True
             | Some a \<Rightarrow> conversivel parse (quebra_tecnica a)"
    by (simp_all add: entradas_validas_def conversivel_valor)
  have q0: "armazem_terceiro r = None \<Longrightarrow> indice parse r = 0"
    by (simp add: indice_def)
  show ?thesis
    unfolding save_def
    by (simp add: cb ct cu ci ca bind_res_def Let_def calc_desconto_umidade_def
        calc_desconto_impureza_def calc_desconto_avariado_def dec_div_100
        calc_quebra_tecnica_eq [OF cq] kg_umidade_def kg_impureza_def kg_avariado_def
        pos_classificacao_def carga_def indice_def q0)
qed

lemma ticket_armazem_valido: "entradas_validas sem_texto ticket_armazem"
  by (simp add: entradas_validas_def conversivel_def ticket_armazem_def ticket_soja_def)

lemma ticket_soja_valido: "entradas_validas sem_texto ticket_soja"
  by (simp add: entradas_validas_def conversivel_def ticket_soja_def)

lemma manual_ou_calculado_informado:
  "manual_ou_calculado campo c = (if informado campo then the campo else c)"
  by (simp add: manual_ou_calculado_def informado_def split: option.splits)

lemma manual_ou_calculado_nao_negativo:
  "nao_negativo campo \<Longrightarrow> 0 \<le> c \<Longrightarrow> 0 \<le> manual_ou_calculado campo c"
  by (simp add: manual_ou_calculado_def nao_negativo_def split: option.splits)

lemma calc_desconto_umidade_eq:
  "calc_desconto_umidade c u pu ts = Inr (if u > pu then c * ((u - pu) + ts) / 100 else 0)"
  by (simp add: calc_desconto_umidade_def bind_res_def dec_div_100 algebra_simps
      add_divide_distrib diff_divide_distrib)

lemma calc_desconto_umidade_raw:
  "calc_desconto_umidade c u pu ts =
     Inr (if u > pu then c * ((u - pu) / 100) + c * (ts / 100) else 0)"
  by (simp add: calc_desconto_umidade_def bind_res_def dec_div_100)

lemma calc_desconto_impureza_raw:
  "calc_desconto_impureza c x px = Inr (if x > px then c * ((x - px) / 100) else 0)"
  by (simp add: calc_desconto_impureza_def bind_res_def dec_div_100)

lemma calc_desconto_avariado_raw:
  "calc_desconto_avariado c x px = Inr (if x > px then c * ((x - px) / 100) else 0)"
  by (simp add: calc_desconto_avariado_def bind_res_def dec_div_100)

lemma manual_ou_calculado_campo:
  "Some (manual_ou_calculado campo c) = (if informado campo then campo else Some c)"
  by (simp add: manual_ou_calculado_def informado_def split: option.splits)

lemma manual_ou_calculado_idem:
  "manual_ou_calculado (Some (manual_ou_calculado campo c)) c = manual_ou_calculado campo c"
  by (simp add: manual_ou_calculado_def split: option.splits)

lemma ticket_seco_valido: "entradas_validas sem_texto ticket_seco"
  by (simp add: entradas_validas_def conversivel_def ticket_seco_def ticket_soja_def)

lemma ticket_manual_valido: "entradas_validas sem_texto ticket_manual"
  by (simp add: entradas_validas_def conversivel_def ticket_manual_def ticket_soja_def)











subsection \<open>The net weight\<close>

text \<open>
  Claim C1. For every ticket whose inputs convert, with or without manual deductions and
  with or without a warehouse, \<^verbatim>\<open>save\<close> returns a ticket whose net weight is the
  load weight (gross minus tare) minus the stored total of deductions minus the stored
  technical shrinkage.
\<close>

theorem peso_liquido_exato:
  assumes "entradas_validas parse r"
  shows "\<exists>r'. save parse tabelas r = Inr r' \<and>
           peso_liquido r' =
             Some (carga parse r - total_descontos_kg r' - peso_quebra_tecnica r')"
  by (simp add: save_validas [OF assms] pos_classificacao_def)

theorem peso_liquido_exato_witness:
  "entradas_validas sem_texto ticket_armazem \<and>
   (\<exists>r'. save sem_texto sem_tabela ticket_armazem = Inr r' \<and>
      peso_liquido r' =
        Some (carga sem_texto ticket_armazem - total_descontos_kg r' - peso_quebra_tecnica r'))"
  using peso_liquido_exato [OF ticket_armazem_valido, of sem_tabela] ticket_armazem_valido
  by simp

text \<open>
  Claim C2, as stated, fails: with 2000 kg gross and 10000 kg tare the load weight is
  \<open>-8000\<close> kg, the moisture deduction computed from it is \<open>-320\<close> kg, and the net
  weight \<open>-7680\<close> kg exceeds the load weight.
\<close>

theorem peso_liquido_excede_carga:
  "save sem_texto sem_tabela ticket_tara_maior =
     Inr (ticket_tara_maior\<lparr>desconto_kg_umidade := Some (- 320),
            desconto_kg_impureza := Some 0, desconto_kg_avariado := Some 0,
            total_descontos_kg := - 320, peso_quebra_tecnica := 0,
            peso_liquido := Some (- 7680)\<rparr>) \<and>
   carga sem_texto ticket_tara_maior = - 8000 \<and> (- 7680 :: decimal) > - 8000"
  by (simp add: save_def bind_res_def Let_def ticket_tara_maior_def ticket_soja_def
      padroes_def tabela_resolvida_def sem_tabela_def calc_desconto_umidade_def
      calc_desconto_impureza_def calc_desconto_avariado_def dec_div_def
      manual_ou_calculado_def calc_quebra_tecnica_def carga_def valor_def)

lemma liquido_le_carga:
  fixes c t q :: decimal
  assumes "0 \<le> c" "0 \<le> t" "0 \<le> q" "q \<le> 100"
  shows "(c - t) - (c - t) * (q / 100) \<le> c"
proof (cases "0 \<le> c - t")
  case True
  then have "0 \<le> (c - t) * (q / 100)" using assms by simp
  then show ?thesis using assms by linarith
next
  case False
  have "(c - t) - (c - t) * (q / 100) = (c - t) * (1 - q / 100)"
    by (simp add: algebra_simps)
  moreover have "(c - t) * (1 - q / 100) \<le> 0"
    using False assms by (intro mult_nonpos_nonneg) simp_all
  ultimately show ?thesis using assms by linarith
qed

text \<open>
  Claim C2, amended. For a ticket whose inputs convert, whose load weight is not negative,
  whose drying fee is not negative, whose stored manual deductions are not negative and
  whose shrinkage percentage lies between 0 and 100, \<^verbatim>\<open>save\<close> returns a ticket
  whose net weight does not exceed the load weight.
\<close>

theorem peso_liquido_limitado:
  assumes "entradas_validas parse r"
    and "0 \<le> carga parse r"
    and "0 \<le> taxa_secagem (padroes tabelas r)"
    and "nao_negativo (desconto_kg_umidade r)"
    and "nao_negativo (desconto_kg_impureza r)"
    and "nao_negativo (desconto_kg_avariado r)"
    and "0 \<le> indice parse r" and "indice parse r \<le> 100"
  shows "\<exists>r' n. save parse tabelas r = Inr r' \<and> peso_liquido r' = Some n \<and>
           n \<le> carga parse r"
proof -
  have u: "0 \<le> kg_umidade parse tabelas r"
    unfolding kg_umidade_def using assms(2,3,4)
    by (intro manual_ou_calculado_nao_negativo) simp_all
  have i: "0 \<le> kg_impureza parse tabelas r"
    unfolding kg_impureza_def using assms(2,5)
    by (intro manual_ou_calculado_nao_negativo) simp_all
  have a: "0 \<le> kg_avariado parse tabelas r"
    unfolding kg_avariado_def using assms(2,6)
    by (intro manual_ou_calculado_nao_negativo) simp_all
  have t: "0 \<le> kg_umidade parse tabelas r + kg_impureza parse tabelas r
                  + kg_avariado parse tabelas r"
    using u i a by simp
  have "pos_classificacao parse tabelas r
          - pos_classificacao parse tabelas r * (indice parse r / 100) \<le> carga parse r"
    unfolding pos_classificacao_def
    by (rule liquido_le_carga [OF assms(2) t assms(7,8)])
  then show ?thesis
    by (simp add: save_validas [OF assms(1)])
qed

theorem peso_liquido_limitado_witness:
  "entradas_validas sem_texto ticket_armazem \<and> 0 \<le> carga sem_texto ticket_armazem \<and>
   0 \<le> taxa_secagem (padroes tabela_soja ticket_armazem) \<and>
   nao_negativo (desconto_kg_umidade ticket_armazem) \<and>
   nao_negativo (desconto_kg_impureza ticket_armazem) \<and>
   nao_negativo (desconto_kg_avariado ticket_armazem) \<and>
   0 \<le> indice sem_texto ticket_armazem \<and> indice sem_texto ticket_armazem \<le> 100 \<and>
   (\<exists>r' n. save sem_texto tabela_soja ticket_armazem = Inr r' \<and> peso_liquido r' = Some n \<and>
      n \<le> 8000)"
proof -
  have c: "carga sem_texto ticket_armazem = 8000"
    by (simp add: carga_def valor_def ticket_armazem_def ticket_soja_def)
  have ts: "taxa_secagem (padroes tabela_soja ticket_armazem) = 2"
    by (simp add: padroes_def tabela_resolvida_def tabela_soja_def ticket_armazem_def
        ticket_soja_def)
  have m: "nao_negativo (desconto_kg_umidade ticket_armazem)"
    "nao_negativo (desconto_kg_impureza ticket_armazem)"
    "nao_negativo (desconto_kg_avariado ticket_armazem)"
    by (simp_all add: nao_negativo_def ticket_armazem_def ticket_soja_def)
  have q: "indice sem_texto ticket_armazem = 2"
    by (simp add: indice_def valor_def ticket_armazem_def ticket_soja_def)
  show ?thesis
    using peso_liquido_limitado [OF ticket_armazem_valido, of tabela_soja] c ts m q
      ticket_armazem_valido
    by simp
qed

subsection \<open>The deductions computed from the percentages\<close>

text \<open>
  Claim C3. The moisture deduction computed from the percentages is the load weight times
  (excess moisture plus drying fee) over 100 when the measured moisture strictly exceeds
  the standard, and 0 otherwise, so the drying fee is charged exactly when there is excess
  moisture. For a ticket whose inputs convert and that carries no manual moisture
  deduction, this is the moisture deduction that \<^verbatim>\<open>save\<close> stores.
\<close>

theorem desconto_umidade_com_taxa:
  assumes "entradas_validas parse r" and "\<not> informado (desconto_kg_umidade r)"
  shows "calc_desconto_umidade c u pu ts =
           Inr (if u > pu then c * ((u - pu) + ts) / 100 else 0) \<and>
    (\<exists>r'. save parse tabelas r = Inr r' \<and>
       desconto_kg_umidade r' =
         Some (if valor parse (umidade_percentual r) > padrao_umidade (padroes tabelas r)
               then carga parse r
                    * ((valor parse (umidade_percentual r) - padrao_umidade (padroes tabelas r))
                       + taxa_secagem (padroes tabelas r)) / 100
               else 0))"
  using assms(2)
  by (simp add: calc_desconto_umidade_eq save_validas [OF assms(1)] kg_umidade_def
      manual_ou_calculado_informado algebra_simps add_divide_distrib diff_divide_distrib)

theorem desconto_umidade_com_taxa_witness:
  "entradas_validas sem_texto ticket_soja \<and> \<not> informado (desconto_kg_umidade ticket_soja) \<and>
   calc_desconto_umidade 8000 18 12 2 = Inr 640 \<and>
   (\<exists>r'. save sem_texto tabela_soja ticket_soja = Inr r' \<and> desconto_kg_umidade r' = Some 640)"
proof -
  have n: "\<not> informado (desconto_kg_umidade ticket_soja)"
    by (simp add: informado_def ticket_soja_def)
  show ?thesis
    using desconto_umidade_com_taxa [OF ticket_soja_valido n, of 8000 18 12 2 tabela_soja]
      ticket_soja_valido n
    by (simp add: padroes_def tabela_resolvida_def tabela_soja_def carga_def valor_def
        ticket_soja_def)
qed

text \<open>
  Claim C4. For moisture, impurity and damage alike, a measured percentage that does not
  strictly exceed its standard (equality included) makes the deduction computed from the
  percentages exactly 0; for a ticket whose inputs convert and that carries no manual
  value for the category, 0 is the deduction that \<^verbatim>\<open>save\<close> stores.
\<close>

theorem desconto_zero_sem_excesso:
  assumes "entradas_validas parse r"
  shows "(u \<le> pu \<longrightarrow> calc_desconto_umidade c u pu ts = Inr 0) \<and>
    (x \<le> px \<longrightarrow> calc_desconto_impureza c x px = Inr 0) \<and>
    (y \<le> py \<longrightarrow> calc_desconto_avariado c y py = Inr 0) \<and>
    (\<exists>r'. save parse tabelas r = Inr r' \<and>
       (valor parse (umidade_percentual r) \<le> padrao_umidade (padroes tabelas r) \<and>
        \<not> informado (desconto_kg_umidade r) \<longrightarrow> desconto_kg_umidade r' = Some 0) \<and>
       (valor parse (impureza_percentual r) \<le> padrao_impureza (padroes tabelas r) \<and>
        \<not> informado (desconto_kg_impureza r) \<longrightarrow> desconto_kg_impureza r' = Some 0) \<and>
       (valor parse (avariado_percentual r) \<le> padrao_avariado (padroes tabelas r) \<and>
        \<not> informado (desconto_kg_avariado r) \<longrightarrow> desconto_kg_avariado r' = Some 0))"
  by (simp add: calc_desconto_umidade_def calc_desconto_impureza_def calc_desconto_avariado_def
      save_validas [OF assms] kg_umidade_def kg_impureza_def kg_avariado_def
      manual_ou_calculado_informado)


theorem desconto_zero_sem_excesso_witness:
  "entradas_validas sem_texto ticket_seco \<and>
   valor sem_texto (umidade_percentual ticket_seco) \<le> padrao_umidade (padroes sem_tabela ticket_seco) \<and>
   \<not> informado (desconto_kg_umidade ticket_seco) \<and>
   valor sem_texto (impureza_percentual ticket_seco) \<le> padrao_impureza (padroes sem_tabela ticket_seco) \<and>
   \<not> informado (desconto_kg_impureza ticket_seco) \<and>
   valor sem_texto (avariado_percentual ticket_seco) \<le> padrao_avariado (padroes sem_tabela ticket_seco) \<and>
   \<not> informado (desconto_kg_avariado ticket_seco) \<and>
   (14 :: decimal) \<le> 14 \<and> calc_desconto_umidade 8000 14 14 2 = Inr 0 \<and>
   (1 / 2 :: decimal) \<le> 1 \<and> calc_desconto_impureza 8000 (1 / 2) 1 = Inr 0 \<and>
   (0 :: decimal) \<le> 0 \<and> calc_desconto_avariado 8000 0 0 = Inr 0 \<and>
   (\<exists>r'. save sem_texto sem_tabela ticket_seco = Inr r' \<and>
      desconto_kg_umidade r' = Some 0 \<and> desconto_kg_impureza r' = Some 0 \<and>
      desconto_kg_avariado r' = Some 0)"
proof -
  have v: "valor sem_texto (umidade_percentual ticket_seco) = 14"
    "valor sem_texto (impureza_percentual ticket_seco) = 1 / 2"
    "valor sem_texto (avariado_percentual ticket_seco) = 0"
    by (simp_all add: valor_def ticket_seco_def ticket_soja_def)
  have p: "padrao_umidade (padroes sem_tabela ticket_seco) = 14"
    "padrao_impureza (padroes sem_tabela ticket_seco) = 1"
    "padrao_avariado (padroes sem_tabela ticket_seco) = 0"
    by (simp_all add: padroes_def tabela_resolvida_def sem_tabela_def ticket_seco_def
        ticket_soja_def)
  have n: "\<not> informado (desconto_kg_umidade ticket_seco)"
    "\<not> informado (desconto_kg_impureza ticket_seco)"
    "\<not> informado (desconto_kg_avariado ticket_seco)"
    by (simp_all add: informado_def ticket_seco_def ticket_soja_def)
  show ?thesis
    using desconto_zero_sem_excesso [OF ticket_seco_valido, of 14 14 8000 2 "1 / 2" 1 0 0 sem_tabela]
      ticket_seco_valido
    by (simp add: v p n)
qed


subsection \<open>Manual deductions\<close>

text \<open>
  Claim C5. For a ticket whose inputs convert, each stored deduction is decided on its
  own: a manual value other than zero is kept as it is, never added to the computed one,
  and a manual value that is absent or zero is replaced by the deduction computed from
  the percentages. So one manual value replaces its own category only, and a zero cannot
  be forced in place of a computed deduction.
\<close>

theorem desconto_manual_prevalece:
  assumes "entradas_validas parse r"
  shows "\<exists>r' du di da. save parse tabelas r = Inr r' \<and>
    calc_desconto_umidade (carga parse r) (valor parse (umidade_percentual r))
      (padrao_umidade (padroes tabelas r)) (taxa_secagem (padroes tabelas r)) = Inr du \<and>
    calc_desconto_impureza (carga parse r) (valor parse (impureza_percentual r))
      (padrao_impureza (padroes tabelas r)) = Inr di \<and>
    calc_desconto_avariado (carga parse r) (valor parse (avariado_percentual r))
      (padrao_avariado (padroes tabelas r)) = Inr da \<and>
    desconto_kg_umidade r' =
      (if informado (desconto_kg_umidade r) then desconto_kg_umidade r else Some du) \<and>
    desconto_kg_impureza r' =
      (if informado (desconto_kg_impureza r) then desconto_kg_impureza r else Some di) \<and>
    desconto_kg_avariado r' =
      (if informado (desconto_kg_avariado r) then desconto_kg_avariado r else Some da)"
  unfolding save_validas [OF assms] calc_desconto_umidade_raw calc_desconto_impureza_raw
    calc_desconto_avariado_raw
  by (simp add: kg_umidade_def kg_impureza_def kg_avariado_def manual_ou_calculado_campo)


theorem desconto_manual_prevalece_witness:
  "entradas_validas sem_texto ticket_manual \<and>
   (\<exists>r'. save sem_texto sem_tabela ticket_manual = Inr r' \<and>
      calc_desconto_umidade 8000 18 14 0 = Inr 320 \<and>
      calc_desconto_impureza 8000 3 1 = Inr 160 \<and>
      calc_desconto_avariado 8000 0 0 = Inr 0 \<and>
      desconto_kg_umidade r' = Some 100 \<and> desconto_kg_impureza r' = Some 160 \<and>
      desconto_kg_avariado r' = Some 0)"
proof -
  have c: "carga sem_texto ticket_manual = 8000"
    by (simp add: carga_def valor_def ticket_manual_def ticket_soja_def)
  have v: "valor sem_texto (umidade_percentual ticket_manual) = 18"
    "valor sem_texto (impureza_percentual ticket_manual) = 3"
    "valor sem_texto (avariado_percentual ticket_manual) = 0"
    by (simp_all add: valor_def ticket_manual_def ticket_soja_def)
  have p: "padroes sem_tabela ticket_manual =
      \<lparr>padrao_umidade = 14, padrao_impureza = 1, padrao_avariado = 0, taxa_secagem = 0\<rparr>"
    by (simp add: padroes_def tabela_resolvida_def sem_tabela_def ticket_manual_def
        ticket_soja_def)
  have m: "desconto_kg_umidade ticket_manual = Some 100"
    "desconto_kg_impureza ticket_manual = Some 0"
    "desconto_kg_avariado ticket_manual = None"
    by (simp_all add: ticket_manual_def ticket_soja_def)
  have k: "calc_desconto_umidade 8000 18 14 0 = Inr 320"
    "calc_desconto_impureza 8000 3 1 = Inr 160"
    "calc_desconto_avariado 8000 0 0 = Inr 0"
    by (simp_all add: calc_desconto_umidade_def calc_desconto_impureza_def
        calc_desconto_avariado_def bind_res_def dec_div_def)
  show ?thesis
    using desconto_manual_prevalece [OF ticket_manual_valido, of sem_tabela] ticket_manual_valido
    by (simp add: c v p m k informado_def)
qed


subsection \<open>Running the calculation again\<close>

text \<open>
  Claim C7. For a ticket whose inputs convert, running \<^verbatim>\<open>save\<close> on the ticket
  that \<^verbatim>\<open>save\<close> returned, which now carries the deductions of the first run,
  returns that same ticket: every derived attribute is unchanged.
\<close>

theorem save_idempotente:
  assumes "entradas_validas parse r"
  shows "\<exists>r'. save parse tabelas r = Inr r' \<and> save parse tabelas r' = Inr r'"
proof -
  define r' where "r' =
    r\<lparr>desconto_kg_umidade := Some (kg_umidade parse tabelas r),
       desconto_kg_impureza := Some (kg_impureza parse tabelas r),
       desconto_kg_avariado := Some (kg_avariado parse tabelas r),
       total_descontos_kg :=
         kg_umidade parse tabelas r + kg_impureza parse tabelas r + kg_avariado parse tabelas r,
       peso_quebra_tecnica := pos_classificacao parse tabelas r * (indice parse r / 100),
       peso_liquido :=
         Some (pos_classificacao parse tabelas r
               - pos_classificacao parse tabelas r * (indice parse r / 100))\<rparr>"
  have s1: "save parse tabelas r = Inr r'"
    unfolding r'_def by (rule save_validas [OF assms])
  have v: "entradas_validas parse r'"
    using assms by (simp add: entradas_validas_def r'_def)
  have tr: "tabela_resolvida tabelas r' = tabela_resolvida tabelas r"
    by (cases "plantio r") (simp_all add: tabela_resolvida_def r'_def)
  have c: "carga parse r' = carga parse r" "indice parse r' = indice parse r"
    "padroes tabelas r' = padroes tabelas r"
    by (simp_all add: carga_def indice_def padroes_def tr) (simp_all add: r'_def)
  have u: "kg_umidade parse tabelas r' = kg_umidade parse tabelas r"
    unfolding kg_umidade_def c
    by (simp add: r'_def kg_umidade_def manual_ou_calculado_idem)
  have i: "kg_impureza parse tabelas r' = kg_impureza parse tabelas r"
    unfolding kg_impureza_def c
    by (simp add: r'_def kg_impureza_def manual_ou_calculado_idem)
  have a: "kg_avariado parse tabelas r' = kg_avariado parse tabelas r"
    unfolding kg_avariado_def c
    by (simp add: r'_def kg_avariado_def manual_ou_calculado_idem)
  have p: "pos_classificacao parse tabelas r' = pos_classificacao parse tabelas r"
    by (simp add: pos_classificacao_def u i a c)
  have "save parse tabelas r' = Inr r'"
    by (simp add: save_validas [OF v] u i a p c) (simp add: r'_def)
  with s1 show ?thesis by blast
qed

theorem save_idempotente_witness:
  "entradas_validas sem_texto ticket_armazem \<and>
   (\<exists>r'. save sem_texto tabela_soja ticket_armazem = Inr r' \<and>
      save sem_texto tabela_soja r' = Inr r')"
  using save_idempotente [OF ticket_armazem_valido, of tabela_soja] ticket_armazem_valido
  by simp

subsection \<open>Errors\<close>




subsection \<open>The default thresholds\<close>



subsection \<open>The technical shrinkage\<close>

text \<open>
  Claim C9. For a ticket whose inputs convert, the stored technical shrinkage is the
  weight after classification (load weight minus the stored total of deductions) times
  the warehouse's percentage over 100, and 0 for a ticket with no warehouse. For
  10000 kg gross, 2000 kg tare, 18 % moisture, 0.5 % impurity, no damaged grain, no
  classification table and a warehouse charging 2 %, the weight after classification is
  7680 kg, the shrinkage 153.6 kg and the net weight 7526.4 kg.
\<close>

theorem quebra_tecnica_percentual:
  assumes "entradas_validas parse r"
  shows "(\<exists>r'. save parse tabelas r = Inr r' \<and>
            peso_quebra_tecnica r' =
              (case armazem_terceiro r of
                 None \<Rightarrow> 0
               | Some a \<Rightarrow>
                   (carga parse r - total_descontos_kg r') * (valor parse (quebra_tecnica a) / 100))) \<and>
    save parse sem_tabela ticket_armazem =
      Inr (ticket_armazem\<lparr>desconto_kg_umidade := Some 320, desconto_kg_impureza := Some 0,
             desconto_kg_avariado := Some 0, total_descontos_kg := 320,
             peso_quebra_tecnica := 768 / 5, peso_liquido := Some (37632 / 5)\<rparr>) \<and>
    carga parse ticket_armazem - 320 = 7680"
proof -
  have g: "\<exists>r'. save parse tabelas r = Inr r' \<and>
            peso_quebra_tecnica r' =
              (case armazem_terceiro r of
                 None \<Rightarrow> 0
               | Some a \<Rightarrow>
                   (carga parse r - total_descontos_kg r') * (valor parse (quebra_tecnica a) / 100))"
    unfolding save_validas [OF assms]
    by (cases "armazem_terceiro r") (simp_all add: pos_classificacao_def indice_def)
  have s: "save parse sem_tabela ticket_armazem =
      Inr (ticket_armazem\<lparr>desconto_kg_umidade := Some 320, desconto_kg_impureza := Some 0,
             desconto_kg_avariado := Some 0, total_descontos_kg := 320,
             peso_quebra_tecnica := 768 / 5, peso_liquido := Some (37632 / 5)\<rparr>)"
    by (simp add: save_def bind_res_def Let_def ticket_armazem_def ticket_soja_def
        padroes_def tabela_resolvida_def sem_tabela_def calc_desconto_umidade_def
        calc_desconto_impureza_def calc_desconto_avariado_def dec_div_def
        manual_ou_calculado_def calc_quebra_tecnica_def)
  have c: "carga parse ticket_armazem - 320 = 7680"
    by (simp add: carga_def valor_def ticket_armazem_def ticket_soja_def)
  from g s c show ?thesis by blast
qed


theorem quebra_tecnica_percentual_witness:
  "entradas_validas sem_texto ticket_armazem \<and>
   (\<exists>r'. save sem_texto tabela_soja ticket_armazem = Inr r' \<and>
      peso_quebra_tecnica r' = (8000 - total_descontos_kg r') * (2 / 100))"
proof -
  have c: "carga sem_texto ticket_armazem = 8000"
    by (simp add: carga_def valor_def ticket_armazem_def ticket_soja_def)
  have a: "armazem_terceiro ticket_armazem = Some \<lparr>quebra_tecnica = PDec 2\<rparr>"
    by (simp add: ticket_armazem_def)
  have v: "valor sem_texto (PDec 2) = 2"
    by (simp add: valor_def)
  from quebra_tecnica_percentual [OF ticket_armazem_valido, of tabela_soja] ticket_armazem_valido
  show ?thesis
    by (simp add: c a v)
qed


subsection \<open>What the calculation leaves alone\<close>

text \<open>
  Claim C10. For a ticket whose inputs convert, the ticket that \<^verbatim>\<open>save\<close>
  returns differs from the one it was given in the six derived attributes at most (the
  three deductions, their total, the technical shrinkage and the net weight): gross and
  tare weight, the three percentages, the warehouse, and the identifying attributes are
  unchanged.
\<close>

theorem save_preserva_entradas:
  assumes "entradas_validas parse r"
  shows "\<exists>r'. save parse tabelas r = Inr r' \<and>
    r'\<lparr>desconto_kg_umidade := desconto_kg_umidade r,
       desconto_kg_impureza := desconto_kg_impureza r,
       desconto_kg_avariado := desconto_kg_avariado r,
       total_descontos_kg := total_descontos_kg r,
       peso_quebra_tecnica := peso_quebra_tecnica r,
       peso_liquido := peso_liquido r\<rparr> = r \<and>
    peso_bruto r' = peso_bruto r \<and> peso_tara r' = peso_tara r \<and>
    umidade_percentual r' = umidade_percentual r \<and>
    impureza_percentual r' = impureza_percentual r \<and>
    avariado_percentual r' = avariado_percentual r \<and>
    armazem_terceiro r' = armazem_terceiro r \<and>
    empresa r' = empresa r \<and> data r' = data r \<and> numero_ticket r' = numero_ticket r \<and>
    fazenda r' = fazenda r \<and> talhao r' = talhao r \<and> plantio r' = plantio r \<and>
    motorista r' = motorista r \<and> placa r' = placa r"
  unfolding save_validas [OF assms] by simp


theorem save_preserva_entradas_witness:
  "entradas_validas sem_texto ticket_armazem \<and>
   (\<exists>r'. save sem_texto tabela_soja ticket_armazem = Inr r' \<and>
    r'\<lparr>desconto_kg_umidade := desconto_kg_umidade ticket_armazem,
       desconto_kg_impureza := desconto_kg_impureza ticket_armazem,
       desconto_kg_avariado := desconto_kg_avariado ticket_armazem,
       total_descontos_kg := total_descontos_kg ticket_armazem,
       peso_quebra_tecnica := peso_quebra_tecnica ticket_armazem,
       peso_liquido := peso_liquido ticket_armazem\<rparr> = ticket_armazem \<and>
    peso_bruto r' = PDec 10000 \<and> peso_tara r' = PDec 2000 \<and>
    umidade_percentual r' = PDec 18 \<and> numero_ticket r' = ''T-001'')"
proof -
  have f: "peso_bruto ticket_armazem = PDec 10000" "peso_tara ticket_armazem = PDec 2000"
    "umidade_percentual ticket_armazem = PDec 18" "numero_ticket ticket_armazem = ''T-001''"
    by (simp_all add: ticket_armazem_def ticket_soja_def)
  from save_preserva_entradas [OF ticket_armazem_valido, of tabela_soja]
  obtain r' where "save sem_texto tabela_soja ticket_armazem = Inr r'"
    and "r'\<lparr>desconto_kg_umidade := desconto_kg_umidade ticket_armazem,
       desconto_kg_impureza := desconto_kg_impureza ticket_armazem,
       desconto_kg_avariado := desconto_kg_avariado ticket_armazem,
       total_descontos_kg := total_descontos_kg ticket_armazem,
       peso_quebra_tecnica := peso_quebra_tecnica ticket_armazem,
       peso_liquido := peso_liquido ticket_armazem\<rparr> = ticket_armazem"
    and "peso_bruto r' = peso_bruto ticket_armazem" "peso_tara r' = peso_tara ticket_armazem"
    and "umidade_percentual r' = umidade_percentual ticket_armazem"
    and "numero_ticket r' = numero_ticket ticket_armazem"
    by blast
  with f ticket_armazem_valido show ?thesis by auto
qed


end
